theory Spec2Isabelle
  imports Main "HOL-Library.AList"
begin

section \<open>The Go MCP server of main.go\<close>

text \<open>
  The server of \<^verbatim>\<open>main.go\<close> answers JSON-RPC requests on \<^verbatim>\<open>/mcp\<close>. This theory embeds
  \<^verbatim>\<open>setupTools\<close>, \<^verbatim>\<open>handleMCP\<close> and \<^verbatim>\<open>executeTool\<close>, together with the part of Go's
  \<^verbatim>\<open>encoding/json\<close> that these functions rely on, and proves the properties of the
  dispatcher.

  What is left out: the response headers (the same four on every path), the handlers of
  \<^verbatim>\<open>/\<close> and \<^verbatim>\<open>/health\<close>, and the bytes of the encoded reply; a reply is the Go value that
  the handler hands to \<^verbatim>\<open>Encode\<close>.
\<close>

subsection \<open>JSON texts\<close>

text \<open>
  A byte slice given to \<^verbatim>\<open>json.Unmarshal\<close> is first scanned as a whole
  (\<^verbatim>\<open>checkValid\<close>); nothing is stored when the scan fails. A slice that passes is
  determined, for everything the decoder does, by its syntax tree: strings and member
  names after unquoting, number literals as written, the members of an object in the
  order of the text with repeated names kept. A \<^verbatim>\<open>[]byte\<close> or \<^verbatim>\<open>json.RawMessage\<close> is
  therefore a \<open>json option\<close>: \<open>None\<close> for bytes that are no JSON text (the empty and the
  nil slice among them), \<open>Some t\<close> for the text with tree \<open>t\<close>.
\<close>

datatype json =
    JNull
  | JBool bool
  | JNumber string
  | JString string
  | JArray "json list"
  | JObject "(string \<times> json) list"

type_synonym RawMessage = "json option"

text \<open>
  The errors of \<^verbatim>\<open>json.Unmarshal\<close>: \<^verbatim>\<open>*SyntaxError\<close> from the scan, and
  \<^verbatim>\<open>*UnmarshalTypeError\<close> with its \<^verbatim>\<open>Value\<close> field when a JSON value does not fit the Go
  type of its target.
\<close>

datatype json_error = SyntaxError | UnmarshalTypeError string

text \<open>\<^verbatim>\<open>saveError\<close>: the decoder goes on after a type error and reports the earliest one.\<close>

definition saveError :: "json_error option \<Rightarrow> json_error option \<Rightarrow> json_error option" where
  "saveError saved err = (case saved of None \<Rightarrow> err | Some e \<Rightarrow> Some e)"

subsection \<open>Go values\<close>

text \<open>
  The values that travel in an \<^verbatim>\<open>interface{}\<close> here: \<^verbatim>\<open>nil\<close>, \<^verbatim>\<open>bool\<close>, \<^verbatim>\<open>float64\<close>,
  \<^verbatim>\<open>string\<close>, slices, maps keyed by strings, and the struct \<^verbatim>\<open>Tool\<close>. The type \<open>'f\<close>
  stands for \<^verbatim>\<open>float64\<close>. Typed slices and maps of the source (\<^verbatim>\<open>[]string\<close>,
  \<^verbatim>\<open>map[string]bool\<close>, \<^verbatim>\<open>[]map[string]interface{}\<close>, \<^verbatim>\<open>[]Tool\<close>) are slices and maps of
  their boxed elements. A map is an association list with distinct keys; a map literal
  lists its entries in the order of the source.
\<close>

datatype 'f gvalue =
    GNil
  | GBool bool
  | GFloat64 'f
  | GString string
  | GSlice "'f gvalue list"
  | GMap "(string \<times> 'f gvalue) list"
  | GTool "'f Tool"
and 'f Tool =
    Tool (Name: string) (Description: string) (InputSchema: "'f gvalue")

text \<open>The map index expression \<^verbatim>\<open>m[k]\<close> with its \<^verbatim>\<open>ok\<close> flag, on a boxed map.\<close>

definition gindex :: "'f gvalue \<Rightarrow> string \<Rightarrow> 'f gvalue option" where
  "gindex v k = (case v of GMap kvs \<Rightarrow> map_of kvs k | _ \<Rightarrow> None)"

subsection \<open>Decoding into \<^verbatim>\<open>interface{}\<close>\<close>

text \<open>
  \<^verbatim>\<open>valueInterface\<close>, \<^verbatim>\<open>arrayInterface\<close> and \<^verbatim>\<open>objectInterface\<close> of \<^verbatim>\<open>encoding/json\<close>. The
  conversion of a number literal, \<^verbatim>\<open>strconv.ParseFloat(s, 64)\<close>, is the parameter \<open>pf\<close>;
  it fails on a literal out of the range of \<^verbatim>\<open>float64\<close>, the error is saved and the
  value is \<^verbatim>\<open>nil\<close>. In a map the last of several equal member names wins.
\<close>

fun valueInterface :: "(string \<Rightarrow> 'f option) \<Rightarrow> json \<Rightarrow> 'f gvalue \<times> json_error option"
  and arrayInterface :: "(string \<Rightarrow> 'f option) \<Rightarrow> json list \<Rightarrow> 'f gvalue list \<times> json_error option"
  and objectInterface :: "(string \<Rightarrow> 'f option) \<Rightarrow> (string \<times> json) list \<Rightarrow>
      (string \<times> 'f gvalue) list \<Rightarrow> (string \<times> 'f gvalue) list \<times> json_error option"
where
  "valueInterface pf JNull = (GNil, None)"
| "valueInterface pf (JBool b) = (GBool b, None)"
| "valueInterface pf (JNumber n) =
     (case pf n of
        Some f \<Rightarrow> (GFloat64 f, None)
      | None \<Rightarrow> (GNil, Some (UnmarshalTypeError (''number '' @ n))))"
| "valueInterface pf (JString s) = (GString s, None)"
| "valueInterface pf (JArray xs) =
     (case arrayInterface pf xs of (vs, err) \<Rightarrow> (GSlice vs, err))"
| "valueInterface pf (JObject kvs) =
     (case objectInterface pf kvs [] of (m, err) \<Rightarrow> (GMap m, err))"
| "arrayInterface pf [] = ([], None)"
| "arrayInterface pf (x # xs) =
     (case valueInterface pf x of (v, err) \<Rightarrow>
        (case arrayInterface pf xs of (vs, errs) \<Rightarrow> (v # vs, saveError err errs)))"
| "objectInterface pf [] m = (m, None)"
| "objectInterface pf (kv # kvs) m =
     (case valueInterface pf (snd kv) of (v, err) \<Rightarrow>
        (case objectInterface pf kvs (AList.update (fst kv) v m) of
           (m', errs) \<Rightarrow> (m', saveError err errs)))"

subsection \<open>Storing a JSON value into a field\<close>

text \<open>
  A field of type \<^verbatim>\<open>interface{}\<close> (\<^verbatim>\<open>literalStore\<close>, \<^verbatim>\<open>array\<close>, \<^verbatim>\<open>object\<close> with a target of
  kind \<^verbatim>\<open>Interface\<close>): \<^verbatim>\<open>null\<close> sets it to \<^verbatim>\<open>nil\<close>, a number that does not convert leaves
  it as it was, anything else replaces it.
\<close>

definition store_interface ::
  "(string \<Rightarrow> 'f option) \<Rightarrow> json \<Rightarrow> 'f gvalue \<Rightarrow> 'f gvalue \<times> json_error option" where
  "store_interface pf j old =
     (case j of
        JNumber n \<Rightarrow>
          (case pf n of
             Some f \<Rightarrow> (GFloat64 f, None)
           | None \<Rightarrow> (old, Some (UnmarshalTypeError (''number '' @ n))))
      | _ \<Rightarrow> valueInterface pf j)"

text \<open>
  A field of type \<^verbatim>\<open>string\<close>: a JSON string is stored, \<^verbatim>\<open>null\<close> has no effect and is no
  error, every other value is skipped with a type error and the field keeps its value.
\<close>

definition store_string :: "json \<Rightarrow> string \<Rightarrow> string \<times> json_error option" where
  "store_string j old =
     (case j of
        JString s \<Rightarrow> (s, None)
      | JNull \<Rightarrow> (old, None)
      | JBool b \<Rightarrow> (old, Some (UnmarshalTypeError ''bool''))
      | JNumber n \<Rightarrow> (old, Some (UnmarshalTypeError ''number''))
      | JArray xs \<Rightarrow> (old, Some (UnmarshalTypeError ''array''))
      | JObject kvs \<Rightarrow> (old, Some (UnmarshalTypeError ''object'')))"

text \<open>
  A field of type \<^verbatim>\<open>json.RawMessage\<close>: its \<^verbatim>\<open>UnmarshalJSON\<close> copies the bytes of the value,
  whatever the value is (the four bytes \<^verbatim>\<open>null\<close> too).
\<close>

definition store_raw :: "json \<Rightarrow> RawMessage \<times> json_error option" where
  "store_raw j = (Some j, None)"

subsection \<open>Matching member names with struct fields\<close>

text \<open>
  A member name selects the field whose JSON name is equal to it or, failing that, equal
  under Unicode simple case folding. The field names of this program are ASCII, and
  the only characters outside ASCII that fold to an ASCII letter are U+017F (long s,
  UTF-8 \<^verbatim>\<open>C5 BF\<close>) and U+212A (Kelvin sign, UTF-8 \<^verbatim>\<open>E2 84 AA\<close>). \<open>foldName\<close> maps a name to
  its folded form: ASCII letters to upper case, these two characters to \<open>S\<close> and \<open>K\<close>,
  every other byte unchanged.
\<close>

definition upper :: "char \<Rightarrow> char" where
  "upper c =
     (case map_of (zip ''abcdefghijklmnopqrstuvwxyz'' ''ABCDEFGHIJKLMNOPQRSTUVWXYZ'') c of
        Some u \<Rightarrow> u
      | None \<Rightarrow> c)"

fun foldName :: "string \<Rightarrow> string" where
  "foldName [] = []"
| "foldName (a # b # c # cs) =
     (if a = CHR 0xE2 \<and> b = CHR 0x84 \<and> c = CHR 0xAA then CHR ''K'' # foldName cs
      else if a = CHR 0xC5 \<and> b = CHR 0xBF then CHR ''S'' # foldName (c # cs)
      else upper a # foldName (b # c # cs))"
| "foldName [a, b] =
     (if a = CHR 0xC5 \<and> b = CHR 0xBF then [CHR ''S''] else upper a # foldName [b])"
| "foldName [a] = [upper a]"

definition field_of :: "string list \<Rightarrow> string \<Rightarrow> string option" where
  "field_of names key =
     (if key \<in> set names then Some key
      else find (\<lambda>n. foldName n = foldName key) names)"

subsection \<open>\<^verbatim>\<open>json.Unmarshal\<close> into a struct\<close>

text \<open>
  \<open>object_fields st kvs s\<close> is the loop of \<^verbatim>\<open>decodeState.object\<close> on a struct: the members
  are visited in the order of the text; \<open>st key value s\<close> stores one member and tells
  whether it was a type error. \<open>Unmarshal st data s\<close> is \<^verbatim>\<open>json.Unmarshal(data, &s)\<close> for a
  struct \<open>s\<close>: the updated struct and the error. A syntax error leaves \<open>s\<close> alone;
  \<^verbatim>\<open>null\<close> leaves it alone and is no error; a JSON value that is neither \<^verbatim>\<open>null\<close> nor an
  object is a type error; an object is decoded as far as it goes.
\<close>

fun object_fields ::
  "(string \<Rightarrow> json \<Rightarrow> 's \<Rightarrow> 's \<times> json_error option) \<Rightarrow> (string \<times> json) list \<Rightarrow> 's \<Rightarrow>
   's \<times> json_error option" where
  "object_fields st [] s = (s, None)"
| "object_fields st (kv # kvs) s =
     (case st (fst kv) (snd kv) s of (s', err) \<Rightarrow>
        (case object_fields st kvs s' of (s'', errs) \<Rightarrow> (s'', saveError err errs)))"

definition Unmarshal ::
  "(string \<Rightarrow> json \<Rightarrow> 's \<Rightarrow> 's \<times> json_error option) \<Rightarrow> RawMessage \<Rightarrow> 's \<Rightarrow>
   's \<times> json_error option" where
  "Unmarshal st data s =
     (case data of
        None \<Rightarrow> (s, Some SyntaxError)
      | Some JNull \<Rightarrow> (s, None)
      | Some (JBool b) \<Rightarrow> (s, Some (UnmarshalTypeError ''bool''))
      | Some (JNumber n) \<Rightarrow> (s, Some (UnmarshalTypeError ''number''))
      | Some (JString x) \<Rightarrow> (s, Some (UnmarshalTypeError ''string''))
      | Some (JArray xs) \<Rightarrow> (s, Some (UnmarshalTypeError ''array''))
      | Some (JObject kvs) \<Rightarrow> object_fields st kvs s)"

subsection \<open>The types of main.go\<close>

record 'f JSONRPCRequest =
  req_JSONRPC :: string
  req_ID :: "'f gvalue"
  req_Method :: string
  req_Params :: RawMessage

record 'f JSONRPCError =
  Code :: int
  Message :: string
  Data :: "'f gvalue"

record 'f JSONRPCResponse =
  JSONRPC :: string
  ID :: "'f gvalue"
  Result :: "'f gvalue"
  Error :: "'f JSONRPCError option"

record 'f MCPServer =
  tools :: "string \<rightharpoonup> 'f Tool"

text \<open>The two anonymous structs: the parameters of \<^verbatim>\<open>tools/call\<close> and of the echo tool.\<close>

record call_params =
  call_Name :: string
  call_Arguments :: RawMessage

record echo_params =
  echo_Message :: string

text \<open>The zero values that \<^verbatim>\<open>var\<close> declares.\<close>

definition zero_request :: "'f JSONRPCRequest" where
  "zero_request = \<lparr>req_JSONRPC = [], req_ID = GNil, req_Method = [], req_Params = None\<rparr>"

definition zero_call_params :: call_params where
  "zero_call_params = \<lparr>call_Name = [], call_Arguments = None\<rparr>"

definition zero_echo_params :: echo_params where
  "zero_echo_params = \<lparr>echo_Message = []\<rparr>"

text \<open>Storing one member, by the \<^verbatim>\<open>json\<close> tags of the three structs.\<close>

definition request_field ::
  "(string \<Rightarrow> 'f option) \<Rightarrow> string \<Rightarrow> json \<Rightarrow> 'f JSONRPCRequest \<Rightarrow>
   'f JSONRPCRequest \<times> json_error option" where
  "request_field pf key j req =
     (case field_of [''jsonrpc'', ''id'', ''method'', ''params''] key of
        None \<Rightarrow> (req, None)
      | Some f \<Rightarrow>
          if f = ''jsonrpc'' then
            (case store_string j (req_JSONRPC req) of (s, err) \<Rightarrow> (req\<lparr>req_JSONRPC := s\<rparr>, err))
          else if f = ''id'' then
            (case store_interface pf j (req_ID req) of (v, err) \<Rightarrow> (req\<lparr>req_ID := v\<rparr>, err))
          else if f = ''method'' then
            (case store_string j (req_Method req) of (s, err) \<Rightarrow> (req\<lparr>req_Method := s\<rparr>, err))
          else
            (case store_raw j of (r, err) \<Rightarrow> (req\<lparr>req_Params := r\<rparr>, err)))"

definition call_field :: "string \<Rightarrow> json \<Rightarrow> call_params \<Rightarrow> call_params \<times> json_error option" where
  "call_field key j p =
     (case field_of [''name'', ''arguments''] key of
        None \<Rightarrow> (p, None)
      | Some f \<Rightarrow>
          if f = ''name'' then
            (case store_string j (call_Name p) of (s, err) \<Rightarrow> (p\<lparr>call_Name := s\<rparr>, err))
          else
            (case store_raw j of (r, err) \<Rightarrow> (p\<lparr>call_Arguments := r\<rparr>, err)))"

definition echo_field :: "string \<Rightarrow> json \<Rightarrow> echo_params \<Rightarrow> echo_params \<times> json_error option" where
  "echo_field key j p =
     (case field_of [''message''] key of
        None \<Rightarrow> (p, None)
      | Some f \<Rightarrow>
          (case store_string j (echo_Message p) of (s, err) \<Rightarrow> (p\<lparr>echo_Message := s\<rparr>, err)))"

subsection \<open>The environment of the process\<close>

text \<open>
  What the handler reads from outside the program: \<^verbatim>\<open>strconv.ParseFloat\<close> as used by the
  decoder, and the four values of package \<^verbatim>\<open>runtime\<close> that the tool \<^verbatim>\<open>system_info\<close> prints.
\<close>

record 'f env =
  ParseFloat :: "string \<Rightarrow> 'f option"
  GOOS :: string
  GOARCH :: string
  Version :: string
  NumCPU :: int

text \<open>The verb \<^verbatim>\<open>%d\<close> of \<^verbatim>\<open>fmt.Sprintf\<close> on an \<^verbatim>\<open>int\<close>: decimal digits, with a sign when negative.\<close>

fun digits :: "nat \<Rightarrow> string" where
  "digits n =
     (if n < 10 then [''0123456789'' ! n]
      else digits (n div 10) @ [''0123456789'' ! (n mod 10)])"

definition Sprintf_d :: "int \<Rightarrow> string" where
  "Sprintf_d i = (if i < 0 then CHR ''-'' # digits (nat (- i)) else digits (nat i))"

subsection \<open>The tool registry\<close>

definition NewMCPServer :: "'f MCPServer" where
  "NewMCPServer = \<lparr>tools = Map.empty\<rparr>"

definition setupTools :: "'f MCPServer \<Rightarrow> 'f MCPServer" where
  "setupTools s =
     (let s1 = s\<lparr>tools := (tools s)(''system_info'' \<mapsto>
                 Tool ''system_info'' ''Get system information''
                   (GMap [(''type'', GString ''object''),
                          (''properties'', GMap [])]))\<rparr>
      in s1\<lparr>tools := (tools s1)(''echo'' \<mapsto>
                 Tool ''echo'' ''Echo back a message''
                   (GMap [(''type'', GString ''object''),
                          (''properties'',
                             GMap [(''message'',
                                      GMap [(''type'', GString ''string''),
                                            (''description'', GString ''Message to echo'')])]),
                          (''required'', GSlice [GString ''message''])]))\<rparr>)"

text \<open>
  \<^verbatim>\<open>for _, tool := range s.tools { tools = append(tools, tool) }\<close>. Go leaves the order
  in which \<^verbatim>\<open>range\<close> visits a map open, and it may differ from one loop to the next. The
  order of one run of the loop is the list \<open>ks\<close> of the keys as visited;
  \<open>iteration_order m ks\<close> says that \<open>ks\<close> is such a list for the map \<open>m\<close>: every key
  once.
\<close>

definition iteration_order :: "(string \<rightharpoonup> 'a) \<Rightarrow> string list \<Rightarrow> bool" where
  "iteration_order m ks = (distinct ks \<and> set ks = dom m)"

fun range_append :: "(string \<rightharpoonup> 'a) \<Rightarrow> string list \<Rightarrow> 'a list \<Rightarrow> 'a list" where
  "range_append m [] acc = acc"
| "range_append m (k # ks) acc =
     (case m k of
        Some t \<Rightarrow> range_append m ks (acc @ [t])
      | None \<Rightarrow> range_append m ks acc)"

subsection \<open>The tool executor\<close>

definition executeTool :: "'f env \<Rightarrow> 'f MCPServer \<Rightarrow> string \<Rightarrow> RawMessage \<Rightarrow> 'f gvalue" where
  "executeTool e s name args =
     (if name = ''system_info'' then
        GMap [(''content'',
               GSlice [GMap [(''type'', GString ''text''),
                             (''text'',
                                GString (''OS: '' @ GOOS e @ [CHR 0x0A] @
                                         ''Arch: '' @ GOARCH e @ [CHR 0x0A] @
                                         ''Go Version: '' @ Version e @ [CHR 0x0A] @
                                         ''CPUs: '' @ Sprintf_d (NumCPU e)))]])]
      else if name = ''echo'' then
        (case Unmarshal echo_field args zero_echo_params of
           (params, err) \<Rightarrow>
             GMap [(''content'',
                    GSlice [GMap [(''type'', GString ''text''),
                                  (''text'', GString (''Echo: '' @ echo_Message params))]])])
      else
        GMap [(''error'', GString ''Unknown tool'')])"

subsection \<open>The handler of \<^verbatim>\<open>/mcp\<close>\<close>

text \<open>
  The request as the handler sees it: \<^verbatim>\<open>r.Method\<close> and the outcome of
  \<^verbatim>\<open>io.ReadAll(r.Body)\<close>.
\<close>

datatype body_read = ReadError | ReadAll RawMessage

record http_request =
  http_Method :: string
  http_Body :: body_read

text \<open>
  What the handler writes: \<^verbatim>\<open>w.WriteHeader(status)\<close> with no body,
  \<^verbatim>\<open>http.Error(w, text, status)\<close>, or \<^verbatim>\<open>json.NewEncoder(w).Encode\<close> of a map or of a
  \<^verbatim>\<open>*JSONRPCResponse\<close>.
\<close>

datatype 'f http_reply =
    WriteHeader int
  | http_Error string int
  | Encode_map "'f gvalue"
  | Encode "'f JSONRPCResponse"

definition StatusOK :: int where "StatusOK = 200"
definition StatusBadRequest :: int where "StatusBadRequest = 400"
definition StatusMethodNotAllowed :: int where "StatusMethodNotAllowed = 405"

text \<open>
  \<open>handleMCP e s ks r\<close>: the reply of the server \<open>s\<close> to the request \<open>r\<close> in the
  environment \<open>e\<close>, when a \<^verbatim>\<open>range\<close> over \<^verbatim>\<open>s.tools\<close> during this call visits the keys in
  the order \<open>ks\<close>.
\<close>

definition handleMCP ::
  "'f env \<Rightarrow> 'f MCPServer \<Rightarrow> string list \<Rightarrow> http_request \<Rightarrow> 'f http_reply" where
  "handleMCP e s ks r =
     (if http_Method r = ''OPTIONS'' then WriteHeader StatusOK
      else if http_Method r = ''GET'' then
        Encode_map (GMap [(''name'', GString ''Go MCP Server''),
                          (''version'', GString ''1.0.0''),
                          (''protocol'', GString ''2024-11-05''),
                          (''capabilities'',
                             GMap [(''tools'', GMap [(''listChanged'', GBool True)])])])
      else if http_Method r \<noteq> ''POST'' then
        http_Error ''Method not allowed'' StatusMethodNotAllowed
      else
        (case http_Body r of
           ReadError \<Rightarrow> http_Error ''Failed to read body'' StatusBadRequest
         | ReadAll body \<Rightarrow>
             (case Unmarshal (request_field (ParseFloat e)) body zero_request of
                (req, Some err) \<Rightarrow>
                  Encode \<lparr>JSONRPC = ''2.0'', ID = GNil, Result = GNil,
                          Error = Some \<lparr>Code = - 32700, Message = ''Parse error'',
                                        Data = GNil\<rparr>\<rparr>
              | (req, None) \<Rightarrow>
                  if req_Method req = ''initialize'' then
                    Encode \<lparr>JSONRPC = ''2.0'', ID = req_ID req,
                            Result =
                              GMap [(''protocolVersion'', GString ''2024-11-05''),
                                    (''capabilities'',
                                       GMap [(''tools'', GMap [(''listChanged'', GBool True)])]),
                                    (''serverInfo'',
                                       GMap [(''name'', GString ''Go MCP Server''),
                                             (''version'', GString ''1.0.0'')])],
                            Error = None\<rparr>
                  else if req_Method req = ''tools/list'' then
                    (let tools' = range_append (tools s) ks []
                     in Encode \<lparr>JSONRPC = ''2.0'', ID = req_ID req,
                                Result = GMap [(''tools'', GSlice (map GTool tools'))],
                                Error = None\<rparr>)
                  else if req_Method req = ''tools/call'' then
                    (case Unmarshal call_field (req_Params req) zero_call_params of
                       (params, err) \<Rightarrow>
                         (let result = executeTool e s (call_Name params) (call_Arguments params)
                          in Encode \<lparr>JSONRPC = ''2.0'', ID = req_ID req, Result = result,
                                     Error = None\<rparr>))
                  else
                    Encode \<lparr>JSONRPC = ''2.0'', ID = req_ID req, Result = GNil,
                            Error = Some \<lparr>Code = - 32601, Message = ''Method not found'',
                                          Data = GNil\<rparr>\<rparr>)))"


text \<open>The server that \<^verbatim>\<open>main\<close> builds before it starts to listen.\<close>

definition server :: "'f MCPServer" where
  "server = setupTools NewMCPServer"

subsection \<open>Which members set a string field\<close>

text \<open>
  \<open>stores names f data\<close>: the bytes \<open>data\<close> are a JSON object with a member that
  selects the field \<open>f\<close> of a struct with the field names \<open>names\<close> and holds a JSON
  string. These are the members by which \<open>Unmarshal\<close> assigns to a field of type
  \<^verbatim>\<open>string\<close>.
\<close>

fun is_string :: "json \<Rightarrow> bool" where
  "is_string (JString s) = True"
| "is_string j = False"

definition stores :: "string list \<Rightarrow> string \<Rightarrow> RawMessage \<Rightarrow> bool" where
  "stores names f data =
     (case data of
        Some (JObject kvs) \<Rightarrow>
          list_ex (\<lambda>kv. field_of names (fst kv) = Some f \<and> is_string (snd kv)) kvs
      | _ \<Rightarrow> False)"

subsection \<open>What a request body says\<close>

text \<open>
  The identifier and the message of a request, read off the JSON text without the
  decoder. \<open>last_member names f kvs\<close> is the value of the last member of an object that
  selects the field \<open>f\<close>.
\<close>

fun last_member :: "string list \<Rightarrow> string \<Rightarrow> (string \<times> json) list \<Rightarrow> json option" where
  "last_member names f [] = None"
| "last_member names f (kv # kvs) =
     (case last_member names f kvs of
        Some j \<Rightarrow> Some j
      | None \<Rightarrow> if field_of names (fst kv) = Some f then Some (snd kv) else None)"

text \<open>
  The Go value that an identifier written as the JSON value \<open>j\<close> stands for: \<^verbatim>\<open>nil\<close>
  for \<^verbatim>\<open>null\<close>, the same boolean or string, and for a number the \<^verbatim>\<open>float64\<close> that
  \<^verbatim>\<open>strconv.ParseFloat\<close> gives for its literal. An identifier of JSON-RPC is no array
  and no object; for these the value is the one that decoding into \<^verbatim>\<open>interface{}\<close>
  gives.
\<close>

fun id_value :: "(string \<Rightarrow> 'f option) \<Rightarrow> json \<Rightarrow> 'f gvalue" where
  "id_value pf JNull = GNil"
| "id_value pf (JBool b) = GBool b"
| "id_value pf (JString s) = GString s"
| "id_value pf (JNumber n) = (case pf n of Some f \<Rightarrow> GFloat64 f | None \<Rightarrow> GNil)"
| "id_value pf (JArray xs) = fst (valueInterface pf (JArray xs))"
| "id_value pf (JObject kvs) = fst (valueInterface pf (JObject kvs))"

text \<open>
  The identifier of a request body: the value of its last member \<^verbatim>\<open>id\<close>, \<^verbatim>\<open>nil\<close> when
  the body has none.
\<close>

definition request_id :: "(string \<Rightarrow> 'f option) \<Rightarrow> RawMessage \<Rightarrow> 'f gvalue" where
  "request_id pf body =
     (case body of
        Some (JObject kvs) \<Rightarrow>
          (case last_member [''jsonrpc'', ''id'', ''method'', ''params''] ''id'' kvs of
             Some j \<Rightarrow> id_value pf j
           | None \<Rightarrow> GNil)
      | _ \<Rightarrow> GNil)"

text \<open>
  \<open>last_string_member names f kvs\<close> is the string of the last member of an object that
  selects the field \<open>f\<close> and holds a JSON string. \<open>message_of args\<close> is the message
  of the arguments of the echo tool: the string of the last member \<^verbatim>\<open>message\<close> that
  holds a string, and the empty string when there is none or the arguments are no
  object.
\<close>

fun last_string_member :: "string list \<Rightarrow> string \<Rightarrow> (string \<times> json) list \<Rightarrow> string option" where
  "last_string_member names f [] = None"
| "last_string_member names f (kv # kvs) =
     (case last_string_member names f kvs of
        Some s \<Rightarrow> Some s
      | None \<Rightarrow>
          (case snd kv of
             JString s \<Rightarrow> if field_of names (fst kv) = Some f then Some s else None
           | _ \<Rightarrow> None))"

definition message_of :: "RawMessage \<Rightarrow> string" where
  "message_of args =
     (case args of
        Some (JObject kvs) \<Rightarrow>
          (case last_string_member [''message''] ''message'' kvs of
             Some m \<Rightarrow> m
           | None \<Rightarrow> [])
      | _ \<Rightarrow> [])"

subsection \<open>An environment and requests for the examples\<close>

text \<open>
  In the examples a \<^verbatim>\<open>float64\<close> is written as the literal it was converted from, and every
  literal converts.
\<close>

definition example_env :: "string env" where
  "example_env =
     \<lparr>ParseFloat = Some, GOOS = ''linux'', GOARCH = ''amd64'', Version = ''go1.22.0'',
      NumCPU = 8\<rparr>"

text \<open>A \<^verbatim>\<open>POST\<close> whose body was read in full and is the JSON text \<open>j\<close>.\<close>

definition POST :: "json \<Rightarrow> http_request" where
  "POST j = \<lparr>http_Method = ''POST'', http_Body = ReadAll (Some j)\<rparr>"

text \<open>
  The body of a \<^verbatim>\<open>tools/call\<close> request with the identifier \<open>i\<close> and the parameters \<open>p\<close>:
  \<^verbatim>\<open>{"jsonrpc": "2.0", "id": i, "method": "tools/call", "params": p}\<close>.
\<close>

definition tools_call :: "json \<Rightarrow> json \<Rightarrow> json" where
  "tools_call i p =
     JObject [(''jsonrpc'', JString ''2.0''), (''id'', i), (''method'', JString ''tools/call''),
              (''params'', p)]"

text \<open>
  An environment that rounds. \<^verbatim>\<open>strconv.ParseFloat(s, 64)\<close> returns the \<^verbatim>\<open>float64\<close>
  nearest to the decimal number \<open>s\<close>, a tie going to the even significand of 53 bits,
  and fails with \<^verbatim>\<open>ErrRange\<close> when that is no finite \<^verbatim>\<open>float64\<close>. \<open>ParseFloat_whole\<close> is
  this function on the literals made of decimal digits only: the \<^verbatim>\<open>float64\<close> is written
  \<open>Whole n\<close> for the whole number \<open>n\<close> that it is. \<open>ulp n\<close> is the distance between
  neighbouring \<^verbatim>\<open>float64\<close> at \<open>n\<close>, which is 1 below \<open>2\<^sup>5\<^sup>3 = 9007199254740992\<close> and
  doubles with every further bit. The conversion of a literal with a sign, a fraction or
  an exponent is not modelled: its \<^verbatim>\<open>float64\<close> is written as the literal, as in
  \<open>example_env\<close>.
\<close>

datatype binary64 = Whole int | Unrounded string

function ulp :: "int \<Rightarrow> int" where
  "ulp n = (if n < 9007199254740992 then 1 else 2 * ulp (n div 2))"
  by pat_completeness auto
termination
  by (relation "measure nat") auto

definition round_binary64 :: "int \<Rightarrow> int" where
  "round_binary64 n =
     (let u = ulp n; q = n div u; r = n mod u
      in if 2 * r < u \<or> (2 * r = u \<and> q mod 2 = 0) then q * u else (q + 1) * u)"

fun whole_number :: "string \<Rightarrow> int \<Rightarrow> int option" where
  "whole_number [] acc = Some acc"
| "whole_number (c # cs) acc =
     (case map_of (zip ''0123456789'' [0, 1, 2, 3, 4, 5, 6, 7, 8, 9]) c of
        Some d \<Rightarrow> whole_number cs (10 * acc + d)
      | None \<Rightarrow> None)"

definition ParseFloat_whole :: "string \<Rightarrow> binary64 option" where
  "ParseFloat_whole lit =
     (case whole_number lit 0 of
        Some n \<Rightarrow> if round_binary64 n < 2 ^ 1024 then Some (Whole (round_binary64 n)) else None
      | None \<Rightarrow> Some (Unrounded lit))"


section \<open>Properties\<close>

subsection \<open>Facts about the decoder and the handler\<close>

lemma saveError_None [simp]: "saveError None err = err"
  by (simp add: saveError_def)

lemma Unmarshal_no_text: "Unmarshal st None s = (s, Some SyntaxError)"
  by (simp add: Unmarshal_def)

lemma POST_simps [simp]:
  "http_Method (POST j) = ''POST''" "http_Body (POST j) = ReadAll (Some j)"
  by (simp_all add: POST_def)

text \<open>The handler on a \<^verbatim>\<open>POST\<close> whose body could be read.\<close>

lemma handleMCP_POST:
  assumes "http_Method r = ''POST''" and "http_Body r = ReadAll body"
  shows "handleMCP e s ks r =
     (case Unmarshal (request_field (ParseFloat e)) body zero_request of
        (req, Some err) \<Rightarrow>
          Encode \<lparr>JSONRPC = ''2.0'', ID = GNil, Result = GNil,
                  Error = Some \<lparr>Code = - 32700, Message = ''Parse error'', Data = GNil\<rparr>\<rparr>
      | (req, None) \<Rightarrow>
          if req_Method req = ''initialize'' then
            Encode \<lparr>JSONRPC = ''2.0'', ID = req_ID req,
                    Result =
                      GMap [(''protocolVersion'', GString ''2024-11-05''),
                            (''capabilities'',
                               GMap [(''tools'', GMap [(''listChanged'', GBool True)])]),
                            (''serverInfo'',
                               GMap [(''name'', GString ''Go MCP Server''),
                                     (''version'', GString ''1.0.0'')])],
                    Error = None\<rparr>
          else if req_Method req = ''tools/list'' then
            Encode \<lparr>JSONRPC = ''2.0'', ID = req_ID req,
                    Result = GMap [(''tools'', GSlice (map GTool (range_append (tools s) ks [])))],
                    Error = None\<rparr>
          else if req_Method req = ''tools/call'' then
            Encode \<lparr>JSONRPC = ''2.0'', ID = req_ID req,
                    Result =
                      executeTool e s
                        (call_Name (fst (Unmarshal call_field (req_Params req) zero_call_params)))
                        (call_Arguments (fst (Unmarshal call_field (req_Params req) zero_call_params))),
                    Error = None\<rparr>
          else
            Encode \<lparr>JSONRPC = ''2.0'', ID = req_ID req, Result = GNil,
                    Error = Some \<lparr>Code = - 32601, Message = ''Method not found'',
                                  Data = GNil\<rparr>\<rparr>)"
  using assms by (auto simp add: handleMCP_def Let_def split: prod.splits option.splits)


lemma dom_tools_server: "dom (tools server) = {''system_info'', ''echo''}"
  by (auto simp: server_def setupTools_def NewMCPServer_def Let_def)

lemma executeTool_unknown:
  assumes "name \<noteq> ''system_info''" and "name \<noteq> ''echo''"
  shows "executeTool e s name args = GMap [(''error'', GString ''Unknown tool'')]"
  using assms by (simp add: executeTool_def)

lemma executeTool_echo:
  "executeTool e s ''echo'' args =
     GMap [(''content'',
            GSlice [GMap [(''type'', GString ''text''),
                          (''text'',
                             GString (''Echo: '' @
                               echo_Message (fst (Unmarshal echo_field args zero_echo_params))))]])]"
  by (simp add: executeTool_def split: prod.splits)

lemma object_fields_preserves:
  assumes "\<And>k v s s' err. (k, v) \<in> set kvs \<Longrightarrow> st k v s = (s', err) \<Longrightarrow> P s \<Longrightarrow> P s'"
    and "P s"
  shows "P (fst (object_fields st kvs s))"
  using assms
proof (induction kvs arbitrary: s)
  case Nil
  then show ?case by simp
next
  case (Cons kv kvs)
  obtain s' err where st: "st (fst kv) (snd kv) s = (s', err)"
    by (cases "st (fst kv) (snd kv) s")
  have "(fst kv, snd kv) \<in> set (kv # kvs)" by simp
  from Cons.prems(1) [OF this st Cons.prems(2)] have "P s'" .
  moreover have "\<And>k v s s' err. (k, v) \<in> set kvs \<Longrightarrow> st k v s = (s', err) \<Longrightarrow> P s \<Longrightarrow> P s'"
    using Cons.prems(1) by (meson list.set_intros(2))
  ultimately have "P (fst (object_fields st kvs s'))"
    by (rule Cons.IH [rotated])
  then show ?case
    using st by (auto split: prod.splits)
qed

lemma store_string_unchanged:
  assumes "\<not> is_string j"
  shows "fst (store_string j old) = old"
  using assms by (cases j) (simp_all add: store_string_def)

lemma call_Name_unchanged:
  assumes "\<not> stores [''name'', ''arguments''] ''name'' data"
  shows "call_Name (fst (Unmarshal call_field data p)) = call_Name p"
proof (cases data)
  case None
  then show ?thesis by (simp add: Unmarshal_def)
next
  case (Some j)
  show ?thesis
  proof (cases j)
    case (JObject kvs)
    have step: "\<And>k v s s' err. (k, v) \<in> set kvs \<Longrightarrow> call_field k v s = (s', err) \<Longrightarrow>
        call_Name s = call_Name p \<Longrightarrow> call_Name s' = call_Name p"
    proof -
      fix k v s s' err
      assume mem: "(k, v) \<in> set kvs" and ef: "call_field k v s = (s', err)"
        and inv: "call_Name s = call_Name p"
      show "call_Name s' = call_Name p"
      proof (cases "field_of [''name'', ''arguments''] k = Some ''name''")
        case False
        with ef inv show ?thesis
          by (auto simp: call_field_def store_raw_def split: option.splits if_splits)
      next
        case True
        with mem assms \<open>data = Some j\<close> JObject have "\<not> is_string v"
          by (auto simp: stores_def list_ex_iff)
        then have "fst (store_string v (call_Name s)) = call_Name s"
          by (rule store_string_unchanged)
        with ef True inv show ?thesis
          by (auto simp: call_field_def split: prod.splits)
      qed
    qed
    have "call_Name (fst (object_fields call_field kvs p)) = call_Name p"
      by (rule object_fields_preserves [where P = "\<lambda>s. call_Name s = call_Name p"])
         (erule (2) step, simp)
    with Some JObject show ?thesis by (simp add: Unmarshal_def)
  qed (use Some in \<open>simp_all add: Unmarshal_def\<close>)
qed

lemma iteration_order_server:
  "iteration_order (tools (server :: 'f MCPServer)) ks \<longleftrightarrow>
     ks = [''system_info'', ''echo''] \<or> ks = [''echo'', ''system_info'']"
proof
  assume io: "iteration_order (tools (server :: 'f MCPServer)) ks"
  then have d: "distinct ks" and s: "set ks = {''system_info'', ''echo''}"
    by (simp_all add: iteration_order_def dom_tools_server)
  from d s have "length ks = 2"
    using distinct_card [of ks] by simp
  then obtain a b where ks: "ks = [a, b]"
    by (cases ks; cases "tl ks") auto
  with d s show "ks = [''system_info'', ''echo''] \<or> ks = [''echo'', ''system_info'']"
    by (auto simp: doubleton_eq_iff)
next
  assume "ks = [''system_info'', ''echo''] \<or> ks = [''echo'', ''system_info'']"
  then show "iteration_order (tools (server :: 'f MCPServer)) ks"
    by (auto simp: iteration_order_def dom_tools_server)
qed

lemma range_append_server:
  "range_append (tools (server :: 'f MCPServer)) [''system_info'', ''echo''] [] =
     [the (tools (server :: 'f MCPServer) ''system_info''), the (tools (server :: 'f MCPServer) ''echo'')]"
  "range_append (tools (server :: 'f MCPServer)) [''echo'', ''system_info''] [] =
     [the (tools (server :: 'f MCPServer) ''echo''), the (tools (server :: 'f MCPServer) ''system_info'')]"
  by (simp_all add: server_def setupTools_def NewMCPServer_def Let_def)

lemma tools_server_entries:
  "tools (server :: 'f MCPServer) ''system_info'' =
     Some (Tool ''system_info'' ''Get system information''
            (GMap [(''type'', GString ''object''), (''properties'', GMap [])]))"
  "tools (server :: 'f MCPServer) ''echo'' =
     Some (Tool ''echo'' ''Echo back a message''
            (GMap [(''type'', GString ''object''),
                   (''properties'',
                      GMap [(''message'',
                               GMap [(''type'', GString ''string''),
                                     (''description'', GString ''Message to echo'')])]),
                   (''required'', GSlice [GString ''message''])]))"
  by (simp_all add: server_def setupTools_def NewMCPServer_def Let_def)

lemma Unmarshal_echo_message:
  "Unmarshal echo_field (Some (JObject [(''message'', JString m)])) zero_echo_params
     = (\<lparr>echo_Message = m\<rparr>, None)"
  by (simp add: Unmarshal_def echo_field_def field_of_def store_string_def zero_echo_params_def)






lemma field_of_message: "field_of [''message''] k = Some f \<Longrightarrow> f = ''message''"
  by (auto simp: field_of_def split: if_splits)

lemma echo_field_Message:
  "echo_Message (fst (echo_field k j p)) =
     (case j of
        JString s \<Rightarrow> if field_of [''message''] k = Some ''message'' then s else echo_Message p
      | _ \<Rightarrow> echo_Message p)"
  by (cases j; cases "field_of [''message''] k")
     (auto simp: echo_field_def store_string_def dest: field_of_message)

lemma object_fields_echo_Message:
  "echo_Message (fst (object_fields echo_field kvs p)) =
     (case last_string_member [''message''] ''message'' kvs of
        Some m \<Rightarrow> m
      | None \<Rightarrow> echo_Message p)"
proof (induction kvs arbitrary: p)
  case Nil
  then show ?case by simp
next
  case (Cons kv kvs)
  have "echo_Message (fst (object_fields echo_field (kv # kvs) p)) =
          echo_Message (fst (object_fields echo_field kvs (fst (echo_field (fst kv) (snd kv) p))))"
    by (simp split: prod.splits)
  also have "\<dots> =
     (case last_string_member [''message''] ''message'' kvs of
        Some m \<Rightarrow> m
      | None \<Rightarrow> echo_Message (fst (echo_field (fst kv) (snd kv) p)))"
    by (rule Cons.IH)
  finally show ?case
    by (simp add: echo_field_Message split: option.splits json.splits)
qed

lemma Unmarshal_echo_Message:
  "echo_Message (fst (Unmarshal echo_field args zero_echo_params)) = message_of args"
proof (cases args)
  case None
  then show ?thesis by (simp add: Unmarshal_def message_of_def zero_echo_params_def)
next
  case (Some j)
  then show ?thesis
    by (cases j)
       (simp_all add: Unmarshal_def message_of_def zero_echo_params_def
          object_fields_echo_Message split: option.splits)
qed

lemma no_string_member:
  assumes "\<not> list_ex (\<lambda>kv. field_of names (fst kv) = Some f \<and> is_string (snd kv)) kvs"
  shows "last_string_member names f kvs = None"
  using assms
proof (induction kvs)
  case Nil
  then show ?case by simp
next
  case (Cons kv kvs)
  then show ?case by (cases "snd kv") auto
qed

lemma message_of_not_stored:
  assumes "\<not> stores [''message''] ''message'' args"
  shows "message_of args = []"
proof (cases args)
  case None
  then show ?thesis by (simp add: message_of_def)
next
  case (Some j)
  with assms show ?thesis
    by (cases j) (simp_all add: message_of_def stores_def no_string_member)
qed

text \<open>
  The identifier of a request without a member \<^verbatim>\<open>id\<close> is \<^verbatim>\<open>nil\<close>, and so is the
  identifier of a request whose \<^verbatim>\<open>id\<close> is \<^verbatim>\<open>null\<close>.
\<close>

lemma absent_id_is_nil:
  assumes "\<forall>kv \<in> set kvs. field_of [''jsonrpc'', ''id'', ''method'', ''params''] (fst kv) \<noteq> Some ''id''"
  shows "req_ID (fst (Unmarshal (request_field pf) (Some (JObject kvs)) zero_request)) = GNil"
proof -
  have "req_ID (fst (object_fields (request_field pf) kvs zero_request)) = GNil"
  proof (rule object_fields_preserves [where P = "\<lambda>req. req_ID req = GNil"])
    fix k v and s s' :: "'a JSONRPCRequest" and err
    assume "(k, v) \<in> set kvs" and "request_field pf k v s = (s', err)" and "req_ID s = GNil"
    with assms show "req_ID s' = GNil"
      by (auto simp: request_field_def store_raw_def split: option.splits if_splits prod.splits)
  next
    show "req_ID (zero_request :: 'a JSONRPCRequest) = GNil"
      by (simp add: zero_request_def)
  qed
  then show ?thesis by (simp add: Unmarshal_def)
qed

lemma null_id_is_nil:
  "store_interface pf JNull old = (GNil, None)"
  by (simp add: store_interface_def)

subsection \<open>Examples\<close>

text \<open>
  A request without \<^verbatim>\<open>id\<close>; a request whose \<^verbatim>\<open>jsonrpc\<close> is a number, which is valid
  JSON and a type error of the decoder; a call of \<^verbatim>\<open>system_info\<close>.
\<close>

lemma absent_id_example:
  "Unmarshal (request_field (ParseFloat example_env))
     (Some (JObject [(''jsonrpc'', JString ''2.0''), (''method'', JString ''tools/list'')]))
     zero_request
   = (\<lparr>req_JSONRPC = ''2.0'', req_ID = GNil, req_Method = ''tools/list'', req_Params = None\<rparr>,
      None)"
  by code_simp

lemma ill_typed_member_example:
  "handleMCP example_env server []
     (POST (JObject [(''jsonrpc'', JNumber ''2''), (''id'', JNumber ''1''),
                     (''method'', JString ''initialize'')])) =
     Encode \<lparr>JSONRPC = ''2.0'', ID = GNil, Result = GNil,
             Error = Some \<lparr>Code = - 32700, Message = ''Parse error'', Data = GNil\<rparr>\<rparr>"
  by code_simp

lemma system_info_example:
  "handleMCP example_env server []
     (POST (tools_call (JString ''x'') (JObject [(''name'', JString ''system_info'')]))) =
     Encode \<lparr>JSONRPC = ''2.0'', ID = GString ''x'',
             Result = GMap [(''content'',
                             GSlice [GMap [(''type'', GString ''text''),
                                           (''text'',
                                              GString (''OS: linux'' @ [CHR 0x0A] @
                                                       ''Arch: amd64'' @ [CHR 0x0A] @
                                                       ''Go Version: go1.22.0'' @ [CHR 0x0A] @
                                                       ''CPUs: 8''))]])],
             Error = None\<rparr>"
  by code_simp

text \<open>
  Rounding: \<open>2\<^sup>5\<^sup>3 + 1\<close> is no \<^verbatim>\<open>float64\<close> and converts to \<open>2\<^sup>5\<^sup>3\<close>. The identifier
  of a body without \<^verbatim>\<open>id\<close>, with \<^verbatim>\<open>id\<close> \<^verbatim>\<open>null\<close> and with a string. An echo whose
  arguments have a member besides the message.
\<close>

lemma ParseFloat_whole_examples:
  "ParseFloat_whole ''7'' = Some (Whole 7)"
  "ParseFloat_whole ''9007199254740992'' = Some (Whole 9007199254740992)"
  "ParseFloat_whole ''9007199254740993'' = Some (Whole 9007199254740992)"
  "ParseFloat_whole ''9007199254740995'' = Some (Whole 9007199254740996)"
  by code_simp+

lemma request_id_examples:
  "request_id pf (Some (JObject [(''jsonrpc'', JString ''2.0''), (''method'', JString ''m'')])) = GNil"
  "request_id pf (Some (JObject [(''id'', JNull), (''method'', JString ''m'')])) = GNil"
  "request_id pf (Some (JObject [(''id'', JString ''a''), (''method'', JString ''m'')])) = GString ''a''"
  by (simp_all add: request_id_def field_of_def upper_def)

lemma echo_with_other_members_example:
  "message_of (Some (JObject [(''message'', JString ''hi''), (''x'', JNumber ''1'')])) = ''hi''
   \<and> handleMCP example_env server []
       (POST (tools_call (JNumber ''6'')
                (JObject [(''name'', JString ''echo''),
                          (''arguments'',
                             JObject [(''message'', JString ''hi''), (''x'', JNumber ''1'')])]))) =
       Encode \<lparr>JSONRPC = ''2.0'', ID = GFloat64 ''6'',
               Result = GMap [(''content'',
                               GSlice [GMap [(''type'', GString ''text''),
                                             (''text'', GString ''Echo: hi'')]])],
               Error = None\<rparr>"
  by code_simp

subsection \<open>The envelope\<close>




text \<open>
  Claim C2. Whenever decoding the body into the request struct fails, the bytes being no
  JSON text at all or a value not fitting the struct, the handler writes the error
  response with code -32700 and the identifier \<^verbatim>\<open>nil\<close>; the server, the method and the
  parameters play no part in it.
\<close>

theorem decode_failure_is_parse_error:
  assumes "http_Method r = ''POST''" and "http_Body r = ReadAll body"
    and "body = None \<or> snd (Unmarshal (request_field (ParseFloat e)) body zero_request) \<noteq> None"
  shows "handleMCP e s ks r =
           Encode \<lparr>JSONRPC = ''2.0'', ID = GNil, Result = GNil,
                   Error = Some \<lparr>Code = - 32700, Message = ''Parse error'', Data = GNil\<rparr>\<rparr>"
proof -
  from assms(3) obtain req err
    where "Unmarshal (request_field (ParseFloat e)) body zero_request = (req, Some err)"
    by (cases "Unmarshal (request_field (ParseFloat e)) body zero_request")
       (auto simp: Unmarshal_no_text)
  with assms(1,2) show ?thesis
    by (simp add: handleMCP_POST)
qed

theorem decode_failure_is_parse_error_witness:
  "handleMCP example_env server [] \<lparr>http_Method = ''POST'', http_Body = ReadAll None\<rparr> =
     Encode \<lparr>JSONRPC = ''2.0'', ID = GNil, Result = GNil,
             Error = Some \<lparr>Code = - 32700, Message = ''Parse error'', Data = GNil\<rparr>\<rparr>"
  by (rule decode_failure_is_parse_error [where body = None]) simp_all

subsection \<open>The dispatcher\<close>



text \<open>
  Claim C5. A request that decodes and whose method is \<^verbatim>\<open>initialize\<close> gets a response
  with the identifier of the request, no error, and a result map in which
  \<^verbatim>\<open>protocolVersion\<close> is \<^verbatim>\<open>2024-11-05\<close> and \<^verbatim>\<open>serverInfo\<close> is a map whose \<^verbatim>\<open>name\<close> is
  \<^verbatim>\<open>Go MCP Server\<close>.
\<close>

theorem initialize_succeeds:
  assumes "http_Method r = ''POST''" and "http_Body r = ReadAll body"
    and "Unmarshal (request_field (ParseFloat e)) body zero_request = (req, None)"
    and "req_Method req = ''initialize''"
  shows "\<exists>result info. handleMCP e s ks r =
             Encode \<lparr>JSONRPC = ''2.0'', ID = req_ID req, Result = result, Error = None\<rparr>
           \<and> result \<noteq> GNil
           \<and> gindex result ''protocolVersion'' = Some (GString ''2024-11-05'')
           \<and> gindex result ''serverInfo'' = Some info
           \<and> gindex info ''name'' = Some (GString ''Go MCP Server'')"
  using assms by (simp add: handleMCP_POST gindex_def)

theorem initialize_succeeds_witness:
  "\<exists>result info.
      handleMCP example_env server []
        (POST (JObject [(''jsonrpc'', JString ''2.0''), (''id'', JNumber ''1''),
                        (''method'', JString ''initialize'')])) =
        Encode \<lparr>JSONRPC = ''2.0'', ID = GFloat64 ''1'', Result = result, Error = None\<rparr>
    \<and> result \<noteq> GNil
    \<and> gindex result ''protocolVersion'' = Some (GString ''2024-11-05'')
    \<and> gindex result ''serverInfo'' = Some info
    \<and> gindex info ''name'' = Some (GString ''Go MCP Server'')"
proof -
  let ?req = "\<lparr>req_JSONRPC = ''2.0'', req_ID = GFloat64 ''1'', req_Method = ''initialize'',
               req_Params = None\<rparr>"
  have h1: "Unmarshal (request_field (ParseFloat example_env))
              (Some (JObject [(''jsonrpc'', JString ''2.0''), (''id'', JNumber ''1''),
                              (''method'', JString ''initialize'')])) zero_request = (?req, None)"
    by code_simp
  have h2: "req_Method ?req = ''initialize''"
    by simp
  from initialize_succeeds [OF POST_simps h1 h2, of server "[]"]
  show ?thesis by simp
qed

text \<open>
  Claim C6. On the server that \<^verbatim>\<open>main\<close> sets up, a request that decodes and whose method
  is \<^verbatim>\<open>tools/list\<close> gets a result whose \<^verbatim>\<open>tools\<close> hold a tool named \<^verbatim>\<open>echo\<close>, with
  \<^verbatim>\<open>required\<close> equal to \<^verbatim>\<open>["message"]\<close> in its input schema, and a tool named
  \<^verbatim>\<open>system_info\<close>. The tools come in the order in which \<^verbatim>\<open>range\<close> visited the map on
  this call, whichever of the two orders that was.
\<close>

theorem tools_list_has_echo_and_system_info:
  assumes "http_Method r = ''POST''" and "http_Body r = ReadAll body"
    and "Unmarshal (request_field (ParseFloat e)) body zero_request = (req, None)"
    and "req_Method req = ''tools/list''"
    and "iteration_order (tools (server :: 'f MCPServer)) ks"
  shows "\<exists>ts. handleMCP e (server :: 'f MCPServer) ks r =
             Encode \<lparr>JSONRPC = ''2.0'', ID = req_ID req,
                     Result = GMap [(''tools'', GSlice (map GTool ts))], Error = None\<rparr>
           \<and> map Name ts = ks
           \<and> (\<exists>t \<in> set ts. Name t = ''echo''
                 \<and> gindex (InputSchema t) ''required'' = Some (GSlice [GString ''message'']))
           \<and> (\<exists>t \<in> set ts. Name t = ''system_info'')"
proof -
  let ?ts = "range_append (tools (server :: 'f MCPServer)) ks []"
  from assms(1-4) have reply: "handleMCP e (server :: 'f MCPServer) ks r =
             Encode \<lparr>JSONRPC = ''2.0'', ID = req_ID req,
                     Result = GMap [(''tools'', GSlice (map GTool ?ts))], Error = None\<rparr>"
    by (simp add: handleMCP_POST)
  from assms(5) consider "ks = [''system_info'', ''echo'']" | "ks = [''echo'', ''system_info'']"
    by (auto simp: iteration_order_server)
  then have "map Name ?ts = ks
           \<and> (\<exists>t \<in> set ?ts. Name t = ''echo''
                 \<and> gindex (InputSchema t) ''required'' = Some (GSlice [GString ''message'']))
           \<and> (\<exists>t \<in> set ?ts. Name t = ''system_info'')"
    by cases (simp_all add: range_append_server tools_server_entries gindex_def)
  with reply show ?thesis by blast
qed

theorem tools_list_has_echo_and_system_info_witness:
  "iteration_order (tools (server :: string MCPServer)) [''echo'', ''system_info'']
   \<and> (\<exists>ts. handleMCP example_env server [''echo'', ''system_info'']
              (POST (JObject [(''jsonrpc'', JString ''2.0''), (''id'', JNumber ''2''),
                              (''method'', JString ''tools/list'')])) =
             Encode \<lparr>JSONRPC = ''2.0'', ID = GFloat64 ''2'',
                     Result = GMap [(''tools'', GSlice (map GTool ts))], Error = None\<rparr>
           \<and> map Name ts = [''echo'', ''system_info'']
           \<and> (\<exists>t \<in> set ts. Name t = ''echo''
                 \<and> gindex (InputSchema t) ''required'' = Some (GSlice [GString ''message'']))
           \<and> (\<exists>t \<in> set ts. Name t = ''system_info''))"
proof -
  let ?req = "\<lparr>req_JSONRPC = ''2.0'', req_ID = GFloat64 ''2'', req_Method = ''tools/list'',
               req_Params = None\<rparr>"
  have h1: "Unmarshal (request_field (ParseFloat example_env))
              (Some (JObject [(''jsonrpc'', JString ''2.0''), (''id'', JNumber ''2''),
                              (''method'', JString ''tools/list'')])) zero_request = (?req, None)"
    by code_simp
  have h2: "req_Method ?req = ''tools/list''"
    by simp
  have h3: "iteration_order (tools (server :: string MCPServer)) [''echo'', ''system_info'']"
    by (simp add: iteration_order_server)
  from h3 tools_list_has_echo_and_system_info [OF POST_simps h1 h2 h3, simplified]
  show ?thesis by (rule conjI)
qed

text \<open>
  Claim C9. On every request, whatever its HTTP method and body, an error object in a
  response of the handler has the code -32700 or the code -32601.
\<close>

theorem only_two_error_codes:
  assumes "handleMCP e s ks r = Encode resp" and "Error resp = Some err"
  shows "Code err = - 32700 \<or> Code err = - 32601"
  using assms
  by (auto simp: handleMCP_def Let_def split: if_splits body_read.splits prod.splits option.splits)

theorem only_two_error_codes_witness:
  "handleMCP example_env server [] (POST (JArray [])) =
     Encode \<lparr>JSONRPC = ''2.0'', ID = GNil, Result = GNil,
             Error = Some \<lparr>Code = - 32700, Message = ''Parse error'', Data = GNil\<rparr>\<rparr>
   \<and> (Code \<lparr>Code = - 32700, Message = ''Parse error'', Data = GNil :: string gvalue\<rparr> = - 32700
      \<or> Code \<lparr>Code = - 32700, Message = ''Parse error'', Data = GNil :: string gvalue\<rparr>
           = - 32601)"
proof -
  have h: "handleMCP example_env server [] (POST (JArray [])) =
     Encode \<lparr>JSONRPC = ''2.0'', ID = GNil, Result = GNil,
             Error = Some \<lparr>Code = - 32700, Message = ''Parse error'', Data = GNil\<rparr>\<rparr>"
    by code_simp
  from only_two_error_codes [OF h] h show ?thesis by simp
qed

subsection \<open>Tool calls\<close>

text \<open>
  Claim C4. On the server that \<^verbatim>\<open>main\<close> sets up, a \<^verbatim>\<open>tools/call\<close> request that decodes
  and whose tool name, as decoded from its parameters, is no key of the registry
  (\<^verbatim>\<open>bogus\<close>, say) gets a response with the identifier of the request, no error, and
  the result \<^verbatim>\<open>{"error": "Unknown tool"}\<close>.
\<close>

theorem unknown_tool_in_band:
  assumes "http_Method r = ''POST''" and "http_Body r = ReadAll body"
    and "Unmarshal (request_field (ParseFloat e)) body zero_request = (req, None)"
    and "req_Method req = ''tools/call''"
    and "Unmarshal call_field (req_Params req) zero_call_params = (params, perr)"
    and "call_Name params \<notin> dom (tools (server :: 'f MCPServer))"
  shows "handleMCP e (server :: 'f MCPServer) ks r =
           Encode \<lparr>JSONRPC = ''2.0'', ID = req_ID req,
                   Result = GMap [(''error'', GString ''Unknown tool'')], Error = None\<rparr>"
  using assms by (simp add: handleMCP_POST dom_tools_server executeTool_unknown)

theorem unknown_tool_in_band_witness:
  "handleMCP example_env server []
     (POST (tools_call (JNumber ''7'')
              (JObject [(''name'', JString ''bogus''), (''arguments'', JObject [])]))) =
     Encode \<lparr>JSONRPC = ''2.0'', ID = GFloat64 ''7'',
             Result = GMap [(''error'', GString ''Unknown tool'')], Error = None\<rparr>"
proof -
  let ?params = "JObject [(''name'', JString ''bogus''), (''arguments'', JObject [])]"
  let ?req = "\<lparr>req_JSONRPC = ''2.0'', req_ID = GFloat64 ''7'', req_Method = ''tools/call'',
               req_Params = Some ?params\<rparr>"
  let ?p = "\<lparr>call_Name = ''bogus'', call_Arguments = Some (JObject [])\<rparr>"
  have h1: "Unmarshal (request_field (ParseFloat example_env))
              (Some (tools_call (JNumber ''7'') ?params)) zero_request = (?req, None)"
    by code_simp
  have h2: "req_Method ?req = ''tools/call''"
    by simp
  have h3: "Unmarshal call_field (req_Params ?req) zero_call_params = (?p, None)"
    by code_simp
  have h4: "call_Name ?p \<notin> dom (tools (server :: string MCPServer))"
    by (simp add: dom_tools_server)
  show ?thesis
    by (rule unknown_tool_in_band [OF POST_simps h1 h2 h3 h4, simplified])
qed

text \<open>
  Claim C7. A \<^verbatim>\<open>tools/call\<close> request that decodes, with the tool name \<^verbatim>\<open>echo\<close> and
  the arguments \<^verbatim>\<open>{"message": m}\<close>, gets the result \<^verbatim>\<open>{"content": [{"type": "text",
  "text": "Echo: " + m}]}\<close>: one entry of type text, the message after the label. With
  \<open>m\<close> = \<^verbatim>\<open>hi\<close> the text is \<^verbatim>\<open>Echo: hi\<close>.
\<close>

theorem echo_returns_prefixed_message:
  assumes "http_Method r = ''POST''" and "http_Body r = ReadAll body"
    and "Unmarshal (request_field (ParseFloat e)) body zero_request = (req, None)"
    and "req_Method req = ''tools/call''"
    and "Unmarshal call_field (req_Params req) zero_call_params = (params, perr)"
    and "call_Name params = ''echo''"
    and "call_Arguments params = Some (JObject [(''message'', JString m)])"
  shows "handleMCP e s ks r =
           Encode \<lparr>JSONRPC = ''2.0'', ID = req_ID req,
                   Result = GMap [(''content'',
                                   GSlice [GMap [(''type'', GString ''text''),
                                                 (''text'', GString (''Echo: '' @ m))]])],
                   Error = None\<rparr>"
  using assms by (simp add: handleMCP_POST executeTool_echo Unmarshal_echo_message)

theorem echo_returns_prefixed_message_witness:
  "handleMCP example_env server []
     (POST (tools_call (JNumber ''3'')
              (JObject [(''name'', JString ''echo''),
                        (''arguments'', JObject [(''message'', JString ''hi'')])]))) =
     Encode \<lparr>JSONRPC = ''2.0'', ID = GFloat64 ''3'',
             Result = GMap [(''content'',
                             GSlice [GMap [(''type'', GString ''text''),
                                           (''text'', GString ''Echo: hi'')]])],
             Error = None\<rparr>"
proof -
  let ?args = "JObject [(''message'', JString ''hi'')]"
  let ?params = "JObject [(''name'', JString ''echo''), (''arguments'', ?args)]"
  let ?req = "\<lparr>req_JSONRPC = ''2.0'', req_ID = GFloat64 ''3'', req_Method = ''tools/call'',
               req_Params = Some ?params\<rparr>"
  let ?p = "\<lparr>call_Name = ''echo'', call_Arguments = Some ?args\<rparr>"
  have h1: "Unmarshal (request_field (ParseFloat example_env))
              (Some (tools_call (JNumber ''3'') ?params)) zero_request = (?req, None)"
    by code_simp
  have h2: "req_Method ?req = ''tools/call''"
    by simp
  have h3: "Unmarshal call_field (req_Params ?req) zero_call_params = (?p, None)"
    by code_simp
  have h4: "call_Name ?p = ''echo''"
    by simp
  have h5: "call_Arguments ?p = Some (JObject [(''message'', JString ''hi'')])"
    by simp
  show ?thesis
    by (rule echo_returns_prefixed_message [OF POST_simps h1 h2 h3 h4 h5, simplified])
qed

text \<open>
  Claim C8, as amended. For every \<^verbatim>\<open>tools/call\<close> request that decodes and names
  \<^verbatim>\<open>echo\<close>, whatever its arguments are and whether or not they decode, the handler
  answers with the identifier of the request, no error, and a single text entry
  \<^verbatim>\<open>"Echo: " + m\<close>, where \<open>m\<close> is the message of the arguments: the string of the last
  member named \<^verbatim>\<open>message\<close> that holds a string. The message is empty, and the text is
  \<^verbatim>\<open>"Echo: "\<close>, whenever the arguments store none: they are missing, or not a JSON
  object, or an object none of whose members named \<^verbatim>\<open>message\<close> holds a string.
\<close>

theorem echo_returns_stored_message:
  assumes "http_Method r = ''POST''" and "http_Body r = ReadAll body"
    and "Unmarshal (request_field (ParseFloat e)) body zero_request = (req, None)"
    and "req_Method req = ''tools/call''"
    and "Unmarshal call_field (req_Params req) zero_call_params = (params, perr)"
    and "call_Name params = ''echo''"
  shows "handleMCP e s ks r =
           Encode \<lparr>JSONRPC = ''2.0'', ID = req_ID req,
                   Result = GMap [(''content'',
                                   GSlice [GMap [(''type'', GString ''text''),
                                                 (''text'',
                                                    GString (''Echo: '' @
                                                      message_of (call_Arguments params)))]])],
                   Error = None\<rparr>
       \<and> (\<not> stores [''message''] ''message'' (call_Arguments params)
            \<longrightarrow> message_of (call_Arguments params) = [])"
  using assms
  by (simp add: handleMCP_POST executeTool_echo Unmarshal_echo_Message message_of_not_stored)

theorem echo_returns_stored_message_witness:
  "\<not> stores [''message''] ''message'' None
   \<and> message_of None = []
   \<and> handleMCP example_env server []
       (POST (tools_call (JNumber ''4'') (JObject [(''name'', JString ''echo'')]))) =
       Encode \<lparr>JSONRPC = ''2.0'', ID = GFloat64 ''4'',
               Result = GMap [(''content'',
                               GSlice [GMap [(''type'', GString ''text''),
                                             (''text'', GString ''Echo: '')]])],
               Error = None\<rparr>"
proof -
  let ?params = "JObject [(''name'', JString ''echo'')]"
  let ?req = "\<lparr>req_JSONRPC = ''2.0'', req_ID = GFloat64 ''4'', req_Method = ''tools/call'',
               req_Params = Some ?params\<rparr>"
  let ?p = "\<lparr>call_Name = ''echo'', call_Arguments = None\<rparr>"
  have h1: "Unmarshal (request_field (ParseFloat example_env))
              (Some (tools_call (JNumber ''4'') ?params)) zero_request = (?req, None)"
    by code_simp
  have h2: "req_Method ?req = ''tools/call''"
    by simp
  have h3: "Unmarshal call_field (req_Params ?req) zero_call_params = (?p, None)"
    by code_simp
  have h4: "call_Name ?p = ''echo''"
    by simp
  have h5: "\<not> stores [''message''] ''message'' None"
    by (simp add: stores_def)
  from echo_returns_stored_message [OF POST_simps h1 h2 h3 h4, of server "[]"] h5
  show ?thesis by simp
qed

text \<open>
  Claim C8 as it was stated does not hold: arguments that fail to decode do not always
  leave the message empty. In \<^verbatim>\<open>{"message": "hi", "message": 5}\<close> the first member
  stores \<^verbatim>\<open>hi\<close>, the second is a type error which \<^verbatim>\<open>executeTool\<close> ignores, and the
  text is \<^verbatim>\<open>Echo: hi\<close>.
\<close>

theorem echo_failed_decode_keeps_message:
  "Unmarshal (request_field (ParseFloat example_env))
     (Some (JObject [(''jsonrpc'', JString ''2.0''), (''id'', JNumber ''8''),
                     (''method'', JString ''tools/call''),
                     (''params'',
                        JObject [(''name'', JString ''echo''),
                                 (''arguments'',
                                    JObject [(''message'', JString ''hi''),
                                             (''message'', JNumber ''5'')])])]))
     zero_request
   = (\<lparr>req_JSONRPC = ''2.0'', req_ID = GFloat64 ''8'', req_Method = ''tools/call'',
       req_Params =
         Some (JObject [(''name'', JString ''echo''),
                        (''arguments'',
                           JObject [(''message'', JString ''hi''),
                                    (''message'', JNumber ''5'')])])\<rparr>, None)
   \<and> Unmarshal call_field
       (Some (JObject [(''name'', JString ''echo''),
                       (''arguments'',
                          JObject [(''message'', JString ''hi''),
                                   (''message'', JNumber ''5'')])]))
       zero_call_params
     = (\<lparr>call_Name = ''echo'',
         call_Arguments =
           Some (JObject [(''message'', JString ''hi''), (''message'', JNumber ''5'')])\<rparr>, None)
   \<and> Unmarshal echo_field
       (Some (JObject [(''message'', JString ''hi''), (''message'', JNumber ''5'')]))
       zero_echo_params
     = (\<lparr>echo_Message = ''hi''\<rparr>, Some (UnmarshalTypeError ''number''))
   \<and> handleMCP example_env server []
       (POST (JObject [(''jsonrpc'', JString ''2.0''), (''id'', JNumber ''8''),
                       (''method'', JString ''tools/call''),
                       (''params'',
                          JObject [(''name'', JString ''echo''),
                                   (''arguments'',
                                      JObject [(''message'', JString ''hi''),
                                               (''message'', JNumber ''5'')])])]))
     = Encode \<lparr>JSONRPC = ''2.0'', ID = GFloat64 ''8'',
               Result = GMap [(''content'',
                               GSlice [GMap [(''type'', GString ''text''),
                                             (''text'', GString ''Echo: hi'')]])],
               Error = None\<rparr>
   \<and> handleMCP example_env server []
       (POST (JObject [(''jsonrpc'', JString ''2.0''), (''id'', JNumber ''8''),
                       (''method'', JString ''tools/call''),
                       (''params'',
                          JObject [(''name'', JString ''echo''),
                                   (''arguments'',
                                      JObject [(''message'', JString ''hi''),
                                               (''message'', JNumber ''5'')])])]))
     \<noteq> Encode \<lparr>JSONRPC = ''2.0'', ID = GFloat64 ''8'',
               Result = GMap [(''content'',
                               GSlice [GMap [(''type'', GString ''text''),
                                             (''text'', GString ''Echo: '')]])],
               Error = None\<rparr>"
  by code_simp

text \<open>
  Claim C10, as amended. For every \<^verbatim>\<open>tools/call\<close> request that decodes and whose
  parameters store no name (they are absent, or not a JSON object, or an object none of
  whose members named \<^verbatim>\<open>name\<close> holds a string), the tool name is the empty string,
  whether or not decoding the parameters failed, and the handler answers with the
  identifier of the request, no error, and the result \<^verbatim>\<open>{"error": "Unknown tool"}\<close>.
\<close>

theorem no_name_is_unknown_tool:
  assumes "http_Method r = ''POST''" and "http_Body r = ReadAll body"
    and "Unmarshal (request_field (ParseFloat e)) body zero_request = (req, None)"
    and "req_Method req = ''tools/call''"
    and "\<not> stores [''name'', ''arguments''] ''name'' (req_Params req)"
  shows "call_Name (fst (Unmarshal call_field (req_Params req) zero_call_params)) = []
       \<and> handleMCP e s ks r =
           Encode \<lparr>JSONRPC = ''2.0'', ID = req_ID req,
                   Result = GMap [(''error'', GString ''Unknown tool'')], Error = None\<rparr>"
proof -
  from assms(5)
  have n: "call_Name (fst (Unmarshal call_field (req_Params req) zero_call_params)) = []"
    by (simp add: call_Name_unchanged zero_call_params_def)
  with assms(1-4) show ?thesis
    by (simp add: handleMCP_POST executeTool_unknown)
qed

theorem no_name_is_unknown_tool_witness:
  "\<not> stores [''name'', ''arguments''] ''name'' None
   \<and> call_Name (fst (Unmarshal call_field None zero_call_params)) = []
   \<and> handleMCP example_env server []
       (POST (JObject [(''jsonrpc'', JString ''2.0''), (''id'', JNumber ''5''),
                       (''method'', JString ''tools/call'')])) =
       Encode \<lparr>JSONRPC = ''2.0'', ID = GFloat64 ''5'',
               Result = GMap [(''error'', GString ''Unknown tool'')], Error = None\<rparr>"
proof -
  let ?req = "\<lparr>req_JSONRPC = ''2.0'', req_ID = GFloat64 ''5'', req_Method = ''tools/call'',
               req_Params = None\<rparr>"
  have h1: "Unmarshal (request_field (ParseFloat example_env))
              (Some (JObject [(''jsonrpc'', JString ''2.0''), (''id'', JNumber ''5''),
                              (''method'', JString ''tools/call'')])) zero_request = (?req, None)"
    by code_simp
  have h2: "req_Method ?req = ''tools/call''"
    by simp
  have h3: "\<not> stores [''name'', ''arguments''] ''name'' (req_Params ?req)"
    by (simp add: stores_def)
  from no_name_is_unknown_tool [OF POST_simps h1 h2 h3, of server "[]"] h3
  show ?thesis by simp
qed

text \<open>
  Claim C10 as it was stated does not hold: parameters that fail to decode do not always
  leave the tool name empty. In \<^verbatim>\<open>{"name": "echo", "name": 5}\<close> the first member stores
  \<^verbatim>\<open>echo\<close>, the second is a type error which the handler ignores, and the echo tool
  runs.
\<close>

theorem failed_params_decode_keeps_name:
  "Unmarshal (request_field (ParseFloat example_env))
     (Some (JObject [(''jsonrpc'', JString ''2.0''), (''id'', JNumber ''9''),
                     (''method'', JString ''tools/call''),
                     (''params'',
                        JObject [(''name'', JString ''echo''), (''name'', JNumber ''5'')])]))
     zero_request
   = (\<lparr>req_JSONRPC = ''2.0'', req_ID = GFloat64 ''9'', req_Method = ''tools/call'',
       req_Params =
         Some (JObject [(''name'', JString ''echo''), (''name'', JNumber ''5'')])\<rparr>, None)
   \<and> Unmarshal call_field
       (Some (JObject [(''name'', JString ''echo''), (''name'', JNumber ''5'')]))
       zero_call_params
     = (\<lparr>call_Name = ''echo'', call_Arguments = None\<rparr>, Some (UnmarshalTypeError ''number''))
   \<and> handleMCP example_env server []
       (POST (JObject [(''jsonrpc'', JString ''2.0''), (''id'', JNumber ''9''),
                       (''method'', JString ''tools/call''),
                       (''params'',
                          JObject [(''name'', JString ''echo''), (''name'', JNumber ''5'')])]))
     = Encode \<lparr>JSONRPC = ''2.0'', ID = GFloat64 ''9'',
               Result = GMap [(''content'',
                               GSlice [GMap [(''type'', GString ''text''),
                                             (''text'', GString ''Echo: '')]])],
               Error = None\<rparr>
   \<and> handleMCP example_env server []
       (POST (JObject [(''jsonrpc'', JString ''2.0''), (''id'', JNumber ''9''),
                       (''method'', JString ''tools/call''),
                       (''params'',
                          JObject [(''name'', JString ''echo''), (''name'', JNumber ''5'')])]))
     \<noteq> Encode \<lparr>JSONRPC = ''2.0'', ID = GFloat64 ''9'',
               Result = GMap [(''error'', GString ''Unknown tool'')], Error = None\<rparr>"
  by code_simp

end
